theory Spec2Isabelle
  imports Complex_Main "HOL-Library.AList"
begin

section \<open>Data model\<close>

text \<open>
  The driver service (\<^verbatim>\<open>driver.service.ts\<close>) keeps driver positions in a Redis
  geospatial set under the key \<^verbatim>\<open>drivers\<close> and driver profiles in a relational
  database reached through Prisma. Both are external collaborators: the service only
  issues commands to them. JavaScript numbers are modelled as \<open>real\<close> where they hold
  coordinates, distances and ratings (NaN and the infinities are left out), and as
  \<open>int\<close> where they hold a count.
\<close>

datatype VehicleType = MOTOBIKE | BIKE

datatype DriverStatusEnum = OFFLINE | ONLINE | BUSY

record DriverProfile =
  userId :: string
  name :: string
  email :: string
  phone :: string
  vehicleType :: VehicleType
  licensePlate :: string
  licenseNumber :: string
  status :: DriverStatusEnum
  rating :: real
  balance :: real
  lastLat :: "real option"
  lastLng :: "real option"

text \<open>A thrown JavaScript \<^verbatim>\<open>Error\<close>; only its \<^verbatim>\<open>message\<close> is ever read.\<close>

datatype error = Error string

fun message_of :: "error \<Rightarrow> string" where
  "message_of (Error m) = m"

text \<open>One entry of a GEOSEARCH reply, \<^verbatim>\<open>{ member, distance }\<close>.\<close>

record GeoResult =
  member :: string
  distance :: real

text \<open>
  One entry of the search response, \<^verbatim>\<open>{ driverId, distance }\<close>. The source sends
  \<^verbatim>\<open>r.distance.toString()\<close>; the model keeps the number that string denotes.
\<close>

record NearbyDriver =
  driverId :: string
  distanceKm :: real

text \<open>The value \<^verbatim>\<open>{ success, message }\<close> returned by \<^verbatim>\<open>deleteDriver\<close>.\<close>

record DeleteResult =
  success :: bool
  message :: string

text \<open>The three environment variables read by \<^verbatim>\<open>searchNearbyDrivers\<close>; \<open>None\<close> is unset.\<close>

record env =
  USE_H3 :: "string option"
  MAX_DRIVER_SEARCH_COUNT :: "string option"
  PREFER_REAL_DRIVERS :: "string option"

section \<open>The external collaborators\<close>

text \<open>Every command the service sends to Redis or to the database.\<close>

datatype io =
    GeoAdd string real real string
  | GeoSearch string real real real "int option"
  | FindUnique string
  | Update string
  | Delete string

text \<open>
  The state outside the service. \<open>geo\<close> holds, for each Redis key, the members of the
  geospatial set with their (longitude, latitude); \<open>profiles\<close> is the driver profile
  table. Two fields describe behaviour the repository does not contain: \<open>distKm\<close> is the
  distance the store computes between two positions, and \<open>rejects\<close> tells, for each
  command, whether the collaborator refuses it (a connection failure, or a validation
  done by the collaborator itself) and with which error message. No operation changes
  these two fields. \<open>trace\<close> records the commands sent, in order.
\<close>

record world =
  geo :: "string \<Rightarrow> (string \<times> real \<times> real) list"
  distKm :: "real \<times> real \<Rightarrow> real \<times> real \<Rightarrow> real"
  rejects :: "io \<Rightarrow> string option"
  profiles :: "string \<Rightarrow> DriverProfile option"
  trace :: "io list"

text \<open>
  Modelled from the spec: the backing store's \<^verbatim>\<open>geoAdd(key, lon, lat, member)\<close>
  (the Redis client call behind \<^verbatim>\<open>RedisService.geoadd\<close>), an idempotent upsert: a
  member already present gets the new position, a new member is added. A refused
  command changes nothing. The reply is the number of members added.
\<close>

definition geoAdd :: "world \<Rightarrow> string \<Rightarrow> real \<Rightarrow> real \<Rightarrow> string \<Rightarrow> (error + nat) \<times> world" where
  "geoAdd w key lon lat m =
     (let c = GeoAdd key lon lat m;
          w1 = w\<lparr>trace := trace w @ [c]\<rparr>
      in case rejects w c of
           Some msg \<Rightarrow> (Inl (Error msg), w1)
         | None \<Rightarrow>
             (Inr (if map_of (geo w key) m = None then 1 else 0),
              w1\<lparr>geo := (geo w)(key := AList.update m (lon, lat) (geo w key))\<rparr>))"

text \<open>
  Modelled from the spec: the backing store's
  \<^verbatim>\<open>geoSearch(key, lon, lat, radiusKm, count, sortAscending)\<close> (the Redis client call
  \<^verbatim>\<open>geoSearchWith\<close> with WITHDIST and SORT ASC): every member within \<open>radius\<close> of the
  center, ascending by distance, cut to COUNT entries when COUNT is given. Members at
  equal distance keep their stored order.
\<close>

definition geoSearchWith ::
  "world \<Rightarrow> string \<Rightarrow> real \<Rightarrow> real \<Rightarrow> real \<Rightarrow> int option \<Rightarrow> (error + GeoResult list) \<times> world" where
  "geoSearchWith w key lon lat radius COUNT =
     (let c = GeoSearch key lon lat radius COUNT;
          w1 = w\<lparr>trace := trace w @ [c]\<rparr>
      in case rejects w c of
           Some msg \<Rightarrow> (Inl (Error msg), w1)
         | None \<Rightarrow>
             (let hits = map (\<lambda>(m, p). \<lparr>member = m, distance = distKm w (lon, lat) p\<rparr>) (geo w key);
                  near = sort_key distance (filter (\<lambda>r. distance r \<le> radius) hits)
              in (Inr (case COUNT of None \<Rightarrow> near | Some n \<Rightarrow> take (nat n) near), w1)))"

text \<open>
  Modelled from the spec: the profile database, the persistence collaborator that the
  spec places outside the subsystem (Prisma's \<^verbatim>\<open>driverProfile.findUnique\<close>, \<^verbatim>\<open>update\<close>
  and \<^verbatim>\<open>delete\<close>; the Prisma client is not in the repository). A lookup of an absent
  row yields \<^verbatim>\<open>null\<close>; an update or a delete of an absent row throws.
\<close>

definition recordNotFound :: error where
  "recordNotFound = Error ''An operation failed because it depends on one or more records that were required but not found.''"

definition findUnique :: "world \<Rightarrow> string \<Rightarrow> (error + DriverProfile option) \<times> world" where
  "findUnique w uid =
     (let c = FindUnique uid;
          w1 = w\<lparr>trace := trace w @ [c]\<rparr>
      in case rejects w c of
           Some msg \<Rightarrow> (Inl (Error msg), w1)
         | None \<Rightarrow> (Inr (profiles w uid), w1))"

definition dbUpdate ::
  "world \<Rightarrow> string \<Rightarrow> (DriverProfile \<Rightarrow> DriverProfile) \<Rightarrow> (error + DriverProfile) \<times> world" where
  "dbUpdate w uid f =
     (let c = Update uid;
          w1 = w\<lparr>trace := trace w @ [c]\<rparr>
      in case rejects w c of
           Some msg \<Rightarrow> (Inl (Error msg), w1)
         | None \<Rightarrow>
             (case profiles w uid of
                None \<Rightarrow> (Inl recordNotFound, w1)
              | Some p \<Rightarrow> (Inr (f p), w1\<lparr>profiles := (profiles w)(uid := Some (f p))\<rparr>)))"

definition dbDelete :: "world \<Rightarrow> string \<Rightarrow> (error + DriverProfile) \<times> world" where
  "dbDelete w uid =
     (let c = Delete uid;
          w1 = w\<lparr>trace := trace w @ [c]\<rparr>
      in case rejects w c of
           Some msg \<Rightarrow> (Inl (Error msg), w1)
         | None \<Rightarrow>
             (case profiles w uid of
                None \<Rightarrow> (Inl recordNotFound, w1)
              | Some p \<Rightarrow> (Inr p, w1\<lparr>profiles := (profiles w)(uid := None)\<rparr>)))"

section \<open>JavaScript built-ins used by the service\<close>

text \<open>\<^verbatim>\<open>s.startsWith('ghost:')\<close>.\<close>

definition isGhost :: "string \<Rightarrow> bool" where
  "isGhost s = (take 6 s = ''ghost:'')"

text \<open>
  \<^verbatim>\<open>xs.slice(0, e)\<close> for an integer \<open>e\<close>: a negative end counts from the end of the
  array, and both sides are clamped to the array.
\<close>

definition slice0 :: "'a list \<Rightarrow> int \<Rightarrow> 'a list" where
  "slice0 xs e =
     (let len = int (length xs);
          k = (if e < 0 then max (len + e) 0 else min e len)
      in take (nat k) xs)"

text \<open>
  \<^verbatim>\<open>parseInt(s)\<close> without a radix: leading white space is skipped, a sign is read, a
  \<^verbatim>\<open>0x\<close> prefix selects base 16, and the longest run of digits is converted; \<open>None\<close> is
  NaN. (The rounding of integers beyond 2 to the power 53 is left out.)
\<close>

definition isWhite :: "char \<Rightarrow> bool" where
  "isWhite c = (of_char c \<in> {9, 10, 11, 12, 13, 32 :: nat})"

definition digitOf :: "nat \<Rightarrow> char \<Rightarrow> nat option" where
  "digitOf radix c =
     (let n = (of_char c :: nat);
          d = (if 48 \<le> n \<and> n \<le> 57 then Some (n - 48)
               else if 97 \<le> n \<and> n \<le> 122 then Some (n - 87)
               else if 65 \<le> n \<and> n \<le> 90 then Some (n - 55)
               else None)
      in case d of None \<Rightarrow> None | Some v \<Rightarrow> if v < radix then Some v else None)"

definition parseInt :: "string \<Rightarrow> int option" where
  "parseInt s =
     (let s1 = dropWhile isWhite s;
          neg = (take 1 s1 = ''-'');
          s2 = (if take 1 s1 = ''-'' \<or> take 1 s1 = ''+'' then drop 1 s1 else s1);
          hex = (take 2 s2 = ''0x'' \<or> take 2 s2 = ''0X'');
          radix = (if hex then 16 else 10);
          s3 = (if hex then drop 2 s2 else s2);
          ds = takeWhile (\<lambda>c. digitOf radix c \<noteq> None) s3;
          v = foldl (\<lambda>a c. a * radix + the (digitOf radix c)) 0 ds
      in if ds = [] then None else Some (if neg then - int v else int v))"

section \<open>RedisService\<close>

definition geoadd :: "world \<Rightarrow> string \<Rightarrow> real \<Rightarrow> real \<Rightarrow> string \<Rightarrow> (error + nat) \<times> world" where
  "geoadd w key lon lat m = geoAdd w key lon lat m"

text \<open>
  \<^verbatim>\<open>geosearch\<close>, with its optional \<^verbatim>\<open>count\<close> (\<open>None\<close> when left out). The service in
  \<^verbatim>\<open>driver.service.ts\<close> does not call it; it calls \<^verbatim>\<open>geosearchLarge\<close> below.
\<close>

definition geosearch ::
  "world \<Rightarrow> string \<Rightarrow> real \<Rightarrow> real \<Rightarrow> real \<Rightarrow> int option \<Rightarrow> (error + GeoResult list) \<times> world" where
  "geosearch w key lon lat radiusKm count =
     (let COUNT = (case count of
                     None \<Rightarrow> None
                   | Some n \<Rightarrow> if n \<noteq> 0 \<and> n > 0 then Some n else None)
      in geoSearchWith w key lon lat radiusKm COUNT)"

text \<open>
  \<^verbatim>\<open>maxCount\<close> is \<open>None\<close> for NaN. The option COUNT is set only for a truthy, positive
  \<^verbatim>\<open>maxCount\<close>.
\<close>

definition geosearchLarge ::
  "world \<Rightarrow> string \<Rightarrow> real \<Rightarrow> real \<Rightarrow> real \<Rightarrow> int option \<Rightarrow> (error + GeoResult list) \<times> world" where
  "geosearchLarge w key lon lat radiusKm maxCount =
     (let COUNT = (case maxCount of
                     None \<Rightarrow> None
                   | Some n \<Rightarrow> if n \<noteq> 0 \<and> n > 0 then Some n else None)
      in geoSearchWith w key lon lat radiusKm COUNT)"

section \<open>DriverService\<close>

text \<open>\<^verbatim>\<open>mapToResponse(profile)\<close>; reading a field of \<^verbatim>\<open>null\<close> throws a TypeError.\<close>

definition mapToResponse :: "DriverProfile option \<Rightarrow> error + DriverProfile" where
  "mapToResponse profile =
     (case profile of
        None \<Rightarrow> Inl (Error ''Cannot read properties of null (reading 'userId')'')
      | Some p \<Rightarrow> Inr p)"

definition findOne :: "world \<Rightarrow> string \<Rightarrow> (error + DriverProfile) \<times> world" where
  "findOne w ident =
     (if isGhost ident then
        (Inr \<lparr>userId = ident, name = ''Ghost Driver'', email = ident @ ''@ghost.test'',
              phone = ''+1000000000'', vehicleType = MOTOBIKE, licensePlate = ''GHOST-001'',
              licenseNumber = ''DL-GHOST'', status = ONLINE, rating = 4.8, balance = 0.0,
              lastLat = None, lastLng = None\<rparr>, w)
      else
        (case findUnique w ident of
           (Inl e, w1) \<Rightarrow> (Inl e, w1)
         | (Inr profile, w1) \<Rightarrow> (mapToResponse profile, w1)))"

text \<open>
  \<^verbatim>\<open>DriverStatusEnum[data.status]\<close> maps the enum value to its name; the model keeps one
  type for both.
\<close>

definition updateStatus :: "world \<Rightarrow> string \<Rightarrow> DriverStatusEnum \<Rightarrow> (error + DriverProfile) \<times> world" where
  "updateStatus w driverId' status' =
     (if isGhost driverId' then
        (Inr \<lparr>userId = driverId', name = ''Ghost Driver'', email = driverId' @ ''@ghost.test'',
              phone = ''+1000000000'', vehicleType = MOTOBIKE, licensePlate = ''GHOST-001'',
              licenseNumber = ''DL-GHOST'', status = status', rating = 4.8, balance = 0.0,
              lastLat = None, lastLng = None\<rparr>, w)
      else
        (case dbUpdate w driverId'
                (\<lambda>p. if status' = BUSY \<or> status' = OFFLINE
                      then p\<lparr>status := status', lastLat := None, lastLng := None\<rparr>
                      else p\<lparr>status := status'\<rparr>) of
           (Inl e, w1) \<Rightarrow> (Inl e, w1)
         | (Inr profile, w1) \<Rightarrow> (mapToResponse (Some profile), w1)))"

definition updateLocation :: "world \<Rightarrow> string \<Rightarrow> real \<Rightarrow> real \<Rightarrow> (error + DriverProfile) \<times> world" where
  "updateLocation w driverId' longitude latitude =
     (case geoadd w ''drivers'' longitude latitude driverId' of
        (Inl e, w1) \<Rightarrow> (Inl e, w1)
      | (Inr _, w1) \<Rightarrow>
          if isGhost driverId' then
            (Inr \<lparr>userId = driverId', name = ''Ghost Driver'', email = driverId' @ ''@ghost.test'',
                  phone = ''+1000000000'', vehicleType = MOTOBIKE, licensePlate = ''GHOST-001'',
                  licenseNumber = ''DL-GHOST'', status = ONLINE, rating = 4.8, balance = 0.0,
                  lastLat = Some latitude, lastLng = Some longitude\<rparr>, w1)
          else
            (case dbUpdate w1 driverId' (\<lambda>p. p\<lparr>lastLat := Some latitude, lastLng := Some longitude\<rparr>) of
               (Inl e, w2) \<Rightarrow> (Inl e, w2)
             | (Inr profile, w2) \<Rightarrow> (mapToResponse (Some profile), w2)))"

text \<open>The three constants \<^verbatim>\<open>searchNearbyDrivers\<close> computes from the environment.\<close>

definition useH3 :: "env \<Rightarrow> bool" where
  "useH3 e = (USE_H3 e = Some ''true'')"

definition maxSearchCount :: "env \<Rightarrow> int option" where
  "maxSearchCount e =
     parseInt (case MAX_DRIVER_SEARCH_COUNT e of
                 None \<Rightarrow> ''1000''
               | Some s \<Rightarrow> if s = [] then ''1000'' else s)"

definition preferRealDrivers :: "env \<Rightarrow> bool" where
  "preferRealDrivers e = (PREFER_REAL_DRIVERS e \<noteq> Some ''false'')"

definition h3NotAvailable :: error where
  "h3NotAvailable = Error ''H3 implementation not yet available. Set USE_H3=false to use pre-tuning mode.''"

text \<open>The selection made from the reply of the store, lines 277 to 317 of the source.\<close>

definition selectResults :: "bool \<Rightarrow> int \<Rightarrow> GeoResult list \<Rightarrow> GeoResult list" where
  "selectResults preferReal count allResults =
     (let realDrivers = filter (\<lambda>r. \<not> isGhost (member r)) allResults;
          ghostDrivers = filter (\<lambda>r. isGhost (member r)) allResults
      in if preferReal then
           (let realSlice = slice0 realDrivers count;
                remainingSlots = max 0 (count - int (length realSlice));
                ghostSlice = slice0 ghostDrivers remainingSlots
            in realSlice @ ghostSlice)
         else slice0 allResults count)"

definition searchNearbyDrivers ::
  "env \<Rightarrow> world \<Rightarrow> real \<Rightarrow> real \<Rightarrow> real \<Rightarrow> int \<Rightarrow> (error + NearbyDriver list) \<times> world" where
  "searchNearbyDrivers e w longitude latitude radiusKm count =
     (if useH3 e then (Inl h3NotAvailable, w)
      else
        (case geosearchLarge w ''drivers'' longitude latitude radiusKm (maxSearchCount e) of
           (Inl err, w1) \<Rightarrow> (Inl err, w1)
         | (Inr allResults, w1) \<Rightarrow>
             (Inr (map (\<lambda>r. \<lparr>driverId = member r, distanceKm = distance r\<rparr>)
                       (selectResults (preferRealDrivers e) count allResults)), w1)))"

text \<open>
  \<^verbatim>\<open>deleteDriver\<close>: the body of the outer \<^verbatim>\<open>try\<close>, whose inner \<^verbatim>\<open>try\<close> logs and drops
  an error of the Redis call, and the outer \<^verbatim>\<open>catch\<close> around it.
\<close>

definition deleteDriver_try :: "world \<Rightarrow> string \<Rightarrow> (error + DeleteResult) \<times> world" where
  "deleteDriver_try w userId' =
     (case dbDelete w userId' of
        (Inl e, w1) \<Rightarrow> (Inl e, w1)
      | (Inr _, w1) \<Rightarrow>
          (case geoadd w1 ''drivers'' 0 0 userId' of
             (_, w2) \<Rightarrow> (Inr \<lparr>success = True, message = ''Driver deleted successfully''\<rparr>, w2)))"

definition deleteDriver :: "world \<Rightarrow> string \<Rightarrow> (error + DeleteResult) \<times> world" where
  "deleteDriver w userId' =
     (case deleteDriver_try w userId' of
        (Inl e, w1) \<Rightarrow>
          (Inr \<lparr>success = False,
                message = (if message_of e = [] then ''Failed to delete driver'' else message_of e)\<rparr>, w1)
      | (Inr r, w1) \<Rightarrow> (Inr r, w1))"

section \<open>Concrete stores for the examples\<close>

text \<open>
  The examples run against a store that behaves as Redis documents GEOADD: a pair with
  longitude outside [-180, 180] or latitude outside [-85.05112878, 85.05112878] is
  refused with an error; every other command is accepted.
\<close>

definition redisValidation :: "io \<Rightarrow> string option" where
  "redisValidation c =
     (case c of
        GeoAdd key lon lat m \<Rightarrow>
          if - 180 \<le> lon \<and> lon \<le> 180 \<and> - 85.05112878 \<le> lat \<and> lat \<le> 85.05112878
          then None else Some ''ERR invalid longitude,latitude pair''
      | _ \<Rightarrow> None)"

text \<open>
  The distance used in the examples: 111 km for each degree of longitude and of latitude.
  Wherever an example measures a distance, the points lie on the equator within a
  hundredth of a degree of the query center, where this agrees with the great-circle
  distance in which member is nearer and which members are inside the radius.
\<close>

definition degreesKm :: "real \<times> real \<Rightarrow> real \<times> real \<Rightarrow> real" where
  "degreesKm p q = 111 * (\<bar>fst p - fst q\<bar> + \<bar>snd p - snd q\<bar>)"

text \<open>A world whose \<^verbatim>\<open>drivers\<close> set holds \<open>ms\<close> and whose profile table holds \<open>ps\<close>.\<close>

definition store :: "(string \<times> real \<times> real) list \<Rightarrow> (string \<times> DriverProfile) list \<Rightarrow> world" where
  "store ms ps =
     \<lparr>geo = (\<lambda>k. if k = ''drivers'' then ms else []), distKm = degreesKm,
      rejects = redisValidation, profiles = map_of ps, trace = []\<rparr>"

definition env0 :: env where
  "env0 = \<lparr>USE_H3 = None, MAX_DRIVER_SEARCH_COUNT = None, PREFER_REAL_DRIVERS = None\<rparr>"

definition profileOf :: "string \<Rightarrow> DriverProfile" where
  "profileOf u =
     \<lparr>userId = u, name = ''Driver'', email = ''driver@example.org'', phone = ''+84000000000'',
      vehicleType = BIKE, licensePlate = ''59-X1 000.00'', licenseNumber = ''DL-1'',
      status = OFFLINE, rating = 0, balance = 0, lastLat = None, lastLng = None\<rparr>"

definition envH3 :: env where
  "envH3 = \<lparr>USE_H3 = Some ''true'', MAX_DRIVER_SEARCH_COUNT = None, PREFER_REAL_DRIVERS = None\<rparr>"

text \<open>
  Three other behaviours of the collaborators: a store that accepts every command, one
  whose connection to Redis is lost, and one whose database is unreachable.
\<close>

definition acceptsAll :: "io \<Rightarrow> string option" where
  "acceptsAll c = None"

definition redisDown :: "io \<Rightarrow> string option" where
  "redisDown c =
     (case c of
        GeoAdd key lon lat m \<Rightarrow> Some ''Socket closed unexpectedly''
      | GeoSearch key lon lat radius COUNT \<Rightarrow> Some ''Socket closed unexpectedly''
      | _ \<Rightarrow> None)"

definition dbDown :: "io \<Rightarrow> string option" where
  "dbDown c =
     (case c of
        GeoAdd key lon lat m \<Rightarrow> None
      | GeoSearch key lon lat radius COUNT \<Rightarrow> None
      | _ \<Rightarrow> Some ''Can't reach database server'')"

text \<open>
  \<open>crowd n\<close> is \<open>n\<close> ghost drivers, with the distinct ids \<^verbatim>\<open>ghost:g\<close>, \<^verbatim>\<open>ghost:gg\<close>, ...,
  all standing at longitude 0, latitude 0.
\<close>

definition ghostId :: "nat \<Rightarrow> string" where
  "ghostId i = ''ghost:'' @ replicate (Suc i) (CHR ''g'')"

definition crowd :: "nat \<Rightarrow> (string \<times> real \<times> real) list" where
  "crowd n = map (\<lambda>i. (ghostId i, (0, 0))) [0..<n]"

section \<open>Auxiliary facts\<close>

lemma set_slice0: "set (slice0 xs e) \<subseteq> set xs"
  by (simp add: slice0_def Let_def set_take_subset)

lemma sorted_slice0: "sorted (map f xs) \<Longrightarrow> sorted (map f (slice0 xs e))"
  by (simp add: slice0_def Let_def flip: take_map)

lemma length_slice0: "0 \<le> e \<Longrightarrow> int (length (slice0 xs e)) \<le> e"
  by (simp add: slice0_def Let_def)

lemma geoSearchWith_sorted:
  "geoSearchWith w key lon lat r cnt = (Inr rs, w1) \<Longrightarrow> sorted (map distance rs)"
  by (auto simp: geoSearchWith_def Let_def simp flip: take_map split: option.splits)

lemma geosearch_sorted:
  "geosearch w key lon lat r c = (Inr rs, w1) \<Longrightarrow> sorted (map distance rs)"
  unfolding geosearch_def Let_def by (rule geoSearchWith_sorted)

lemma geosearchLarge_sorted:
  "geosearchLarge w key lon lat r mc = (Inr rs, w1) \<Longrightarrow> sorted (map distance rs)"
  unfolding geosearchLarge_def Let_def by (rule geoSearchWith_sorted)

lemma geoSearchWith_within:
  assumes "geoSearchWith w key lon lat r cnt = (Inr rs, w1)" and "h \<in> set rs"
  shows "\<exists>p. (member h, p) \<in> set (geo w key) \<and> distance h = distKm w (lon, lat) p \<and> distance h \<le> r"
proof -
  let ?near = "sort_key distance (filter (\<lambda>r'. distance r' \<le> r)
      (map (\<lambda>(m, p). \<lparr>member = m, distance = distKm w (lon, lat) p\<rparr>) (geo w key)))"
  from assms(1) have "set rs \<subseteq> set ?near"
    by (auto simp: geoSearchWith_def Let_def split: option.splits dest: in_set_takeD)
  with assms(2) have "h \<in> set ?near" by blast
  then obtain m p where "(m, p) \<in> set (geo w key)"
    and "h = \<lparr>member = m, distance = distKm w (lon, lat) p\<rparr>" and "distance h \<le> r"
    by auto
  then show ?thesis by (intro exI [of _ p]) simp
qed

lemma slice0_filter_all: "\<forall>x \<in> set (slice0 (filter P xs) e). P x"
  using set_slice0 [of "filter P xs" e] by auto

lemma filter_slice0_same: "filter P (slice0 (filter P xs) e) = slice0 (filter P xs) e"
  by (rule filter_True) (rule slice0_filter_all)

lemma filter_slice0_other:
  "filter (\<lambda>x. \<not> P x) (slice0 (filter P xs) e) = []"
proof (rule filter_False)
  show "\<forall>x\<in>set (slice0 (filter P xs) e). \<not> \<not> P x"
    using slice0_filter_all [of P xs e] by blast
qed

lemma filter_slice0_other':
  "filter P (slice0 (filter (\<lambda>x. \<not> P x) xs) e) = []"
  by (rule filter_False) (rule slice0_filter_all [of "\<lambda>x. \<not> P x"])

lemma selectResults_subset: "set (selectResults b c xs) \<subseteq> set xs"
proof -
  have "set (slice0 (filter P xs) e) \<subseteq> set xs" for P e
    using set_slice0 [of "filter P xs" e] by auto
  then show ?thesis
    using set_slice0 [of xs c] by (auto simp: selectResults_def Let_def)
qed

lemma selectResults_mixed_sorted:
  "sorted (map distance xs) \<Longrightarrow> sorted (map distance (selectResults False c xs))"
  by (simp add: selectResults_def sorted_slice0)

lemma selectResults_real_block:
  "filter (\<lambda>r. \<not> isGhost (member r)) (selectResults True c xs)
     = slice0 (filter (\<lambda>r. \<not> isGhost (member r)) xs) c"
  by (simp add: selectResults_def Let_def filter_slice0_same filter_slice0_other)

lemma selectResults_ghost_block:
  "filter (\<lambda>r. isGhost (member r)) (selectResults True c xs)
     = slice0 (filter (\<lambda>r. isGhost (member r)) xs)
         (max 0 (c - int (length (slice0 (filter (\<lambda>r. \<not> isGhost (member r)) xs) c))))"
  by (simp add: selectResults_def Let_def filter_slice0_same filter_slice0_other')

lemma selectResults_blocks:
  "selectResults True c xs =
     filter (\<lambda>r. \<not> isGhost (member r)) (selectResults True c xs) @
     filter (\<lambda>r. isGhost (member r)) (selectResults True c xs)"
  unfolding selectResults_real_block selectResults_ghost_block
  by (simp add: selectResults_def Let_def)

lemma selectResults_blocks_sorted:
  assumes "sorted (map distance xs)"
  shows "sorted (map distance (filter (\<lambda>r. \<not> isGhost (member r)) (selectResults b c xs)))"
    and "sorted (map distance (filter (\<lambda>r. isGhost (member r)) (selectResults b c xs)))"
proof -
  show "sorted (map distance (filter (\<lambda>r. \<not> isGhost (member r)) (selectResults b c xs)))"
  proof (cases b)
    case True
    then show ?thesis
      by (simp add: selectResults_real_block sorted_slice0 sorted_filter assms)
  next
    case False
    then show ?thesis
      by (simp add: selectResults_def sorted_slice0 sorted_filter assms)
  qed
  show "sorted (map distance (filter (\<lambda>r. isGhost (member r)) (selectResults b c xs)))"
  proof (cases b)
    case True
    then show ?thesis
      by (simp add: selectResults_ghost_block sorted_slice0 sorted_filter assms)
  next
    case False
    then show ?thesis
      by (simp add: selectResults_def sorted_slice0 sorted_filter assms)
  qed
qed

lemma map_blocks: "ys = as @ bs \<Longrightarrow> map f ys = map f as @ map f bs"
  by simp

lemma searchNearbyDrivers_Inr:
  assumes "searchNearbyDrivers e w lon lat r c = (Inr res, w1)"
  obtains allResults where
    "\<not> useH3 e"
    "geosearchLarge w ''drivers'' lon lat r (maxSearchCount e) = (Inr allResults, w1)"
    "res = map (\<lambda>r. \<lparr>driverId = member r, distanceKm = distance r\<rparr>)
             (selectResults (preferRealDrivers e) c allResults)"
  using assms
  by (auto simp: searchNearbyDrivers_def split: if_splits prod.splits sum.splits)

lemma filter_response:
  "filter (\<lambda>d. P (driverId d)) (map (\<lambda>r. \<lparr>driverId = member r, distanceKm = distance r\<rparr>) xs)
     = map (\<lambda>r. \<lparr>driverId = member r, distanceKm = distance r\<rparr>) (filter (\<lambda>r. P (member r)) xs)"
  by (induction xs) auto

lemma maxSearchCount_env0: "maxSearchCount env0 = Some 1000"
  by (simp add: maxSearchCount_def env0_def parseInt_def isWhite_def digitOf_def)

lemmas search_defs =
  searchNearbyDrivers_def useH3_def preferRealDrivers_def geosearchLarge_def geoSearchWith_def
  selectResults_def isGhost_def slice0_def Let_def

lemmas store_defs = store_def redisValidation_def degreesKm_def

lemma remaining_zero:
  "c \<le> int (length xs) \<Longrightarrow> max 0 (c - int (length (slice0 xs c))) = 0"
  by (simp add: slice0_def Let_def)

lemma isGhost_ghostId: "isGhost (ghostId i)"
  by (simp add: isGhost_def ghostId_def)

lemma crowd_hits:
  "map (\<lambda>(m, p). \<lparr>member = m, distance = degreesKm (0, 0) p\<rparr>) (crowd n)
     = map (\<lambda>i. \<lparr>member = ghostId i, distance = 0\<rparr>) [0..<n]"
  by (simp add: crowd_def degreesKm_def)

lemma crowd_reply:
  assumes "0 < n"
  shows "geoSearchWith (store (crowd n @ [(''real:1'', (0.01, 0))]) []) ''drivers'' 0 0 5 (Some (int n))
     = (Inr (map (\<lambda>i. \<lparr>member = ghostId i, distance = 0\<rparr>) [0..<n]),
        (store (crowd n @ [(''real:1'', (0.01, 0))]) [])
          \<lparr>trace := [GeoSearch ''drivers'' 0 0 5 (Some (int n))]\<rparr>)"
proof -
  let ?G = "map (\<lambda>i. \<lparr>member = ghostId i, distance = 0\<rparr>) [0..<n]"
  let ?r = "\<lparr>member = ''real:1'', distance = 1.11\<rparr>"
  have hits: "map (\<lambda>(m, p). \<lparr>member = m, distance = degreesKm (0, 0) p\<rparr>)
                (crowd n @ [(''real:1'', (0.01, 0))]) = ?G @ [?r]"
    by (simp add: crowd_hits) (simp add: degreesKm_def)
  have near: "filter (\<lambda>r. distance r \<le> 5) (?G @ [?r]) = ?G @ [?r]"
    by (simp add: filter_True)
  have "sorted (map distance (?G @ [?r]))"
    by (simp add: sorted_append o_def map_replicate_const)
  then have sorted: "sort_key distance (?G @ [?r]) = ?G @ [?r]"
    by (rule sort_key_id_if_sorted)
  let ?W = "store (crowd n @ [(''real:1'', (0.01, 0))]) []"
  have w: "geo ?W ''drivers'' = crowd n @ [(''real:1'', (0.01, 0))]" "distKm ?W = degreesKm"
    "rejects ?W (GeoSearch ''drivers'' 0 0 5 (Some (int n))) = None" "trace ?W = []"
    by (simp_all add: store_def redisValidation_def)
  show ?thesis
    unfolding geoSearchWith_def Let_def w hits near sorted by simp
qed

lemma crowd_select:
  assumes "0 < n"
  shows "selectResults True 1 (map (\<lambda>i. \<lparr>member = ghostId i, distance = 0\<rparr>) [0..<n])
           = [\<lparr>member = ghostId 0, distance = 0\<rparr>]"
proof -
  let ?G = "map (\<lambda>i. \<lparr>member = ghostId i, distance = 0\<rparr>) [0..<n]"
  have r: "filter (\<lambda>r. \<not> isGhost (member r)) ?G = []"
    by (simp add: filter_False isGhost_ghostId)
  have g: "filter (\<lambda>r. isGhost (member r)) ?G = ?G"
    by (simp add: filter_True isGhost_ghostId)
  from assms have "[0..<n] = 0 # [1..<n]" by (simp add: upt_conv_Cons)
  then have "take 1 ?G = [\<lparr>member = ghostId 0, distance = 0\<rparr>]" by simp
  then show ?thesis
    using assms by (simp add: selectResults_def Let_def r g slice0_def)
qed

lemmas delete_defs = deleteDriver_def deleteDriver_try_def dbDelete_def geoadd_def geoAdd_def Let_def

lemmas location_defs = updateLocation_def geoadd_def geoAdd_def dbUpdate_def mapToResponse_def Let_def

lemma length_selectResults:
  assumes "0 \<le> c" shows "int (length (selectResults b c xs)) \<le> c"
proof (cases b)
  case True
  let ?rs = "slice0 (filter (\<lambda>r. \<not> isGhost (member r)) xs) c"
  let ?k = "max 0 (c - int (length ?rs))"
  have 1: "int (length ?rs) \<le> c" using assms by (rule length_slice0)
  have 2: "int (length (slice0 (filter (\<lambda>r. isGhost (member r)) xs) ?k)) \<le> ?k"
    by (rule length_slice0) simp
  from 1 2 True show ?thesis
    by (simp add: selectResults_def Let_def)
next
  case False
  then show ?thesis using length_slice0 [OF assms, of xs]
    by (simp add: selectResults_def Let_def)
qed

lemma searchNearbyDrivers_capacity:
  assumes "0 \<le> c" and "searchNearbyDrivers e w lon lat r c = (Inr res, w1)"
  shows "int (length res) \<le> c"
proof -
  from assms(2) obtain allResults where
    "res = map (\<lambda>r. \<lparr>driverId = member r, distanceKm = distance r\<rparr>)
             (selectResults (preferRealDrivers e) c allResults)"
    by (rule searchNearbyDrivers_Inr)
  then show ?thesis using length_selectResults [OF assms(1)] by simp
qed

lemma update_twice: "AList.update k v (AList.update k v al) = AList.update k v al"
  by (induction al) auto

section \<open>The claims\<close>

subsection \<open>C1: order of the distances in a search result\<close>

text \<open>
  Claim C1, as amended. For every successful \<^verbatim>\<open>searchNearbyDrivers\<close> call: with
  \<^verbatim>\<open>PREFER_REAL_DRIVERS=false\<close> the distances of the result are non-decreasing; otherwise
  (the default) the result is its real (non-ghost) entries followed by its ghost
  entries. In both modes the distances are non-decreasing among the real entries and
  among the ghost entries.
\<close>

theorem search_distances_sorted_in_blocks:
  assumes "searchNearbyDrivers e w lon lat r c = (Inr res, w1)"
  shows "(\<not> preferRealDrivers e \<longrightarrow> sorted (map distanceKm res)) \<and>
         (preferRealDrivers e \<longrightarrow>
            res = filter (\<lambda>d. \<not> isGhost (driverId d)) res @ filter (\<lambda>d. isGhost (driverId d)) res) \<and>
         sorted (map distanceKm (filter (\<lambda>d. \<not> isGhost (driverId d)) res)) \<and>
         sorted (map distanceKm (filter (\<lambda>d. isGhost (driverId d)) res))"
proof -
  from assms obtain allResults where
    g: "geosearchLarge w ''drivers'' lon lat r (maxSearchCount e) = (Inr allResults, w1)" and
    res: "res = map (\<lambda>r. \<lparr>driverId = member r, distanceKm = distance r\<rparr>)
             (selectResults (preferRealDrivers e) c allResults)"
    by (rule searchNearbyDrivers_Inr)
  from g have s: "sorted (map distance allResults)" by (rule geosearchLarge_sorted)
  have 1: "\<not> preferRealDrivers e \<longrightarrow> sorted (map distanceKm res)"
    using selectResults_mixed_sorted [OF s, of c] by (simp add: res o_def)
  have 2: "preferRealDrivers e \<longrightarrow>
            res = filter (\<lambda>d. \<not> isGhost (driverId d)) res @ filter (\<lambda>d. isGhost (driverId d)) res"
  proof
    assume p: "preferRealDrivers e"
    show "res = filter (\<lambda>d. \<not> isGhost (driverId d)) res @ filter (\<lambda>d. isGhost (driverId d)) res"
      unfolding res filter_response [of "\<lambda>i. \<not> isGhost i"] filter_response [of isGhost] eqTrueI [OF p]
      by (rule map_blocks [OF selectResults_blocks])
  qed
  have 3: "sorted (map distanceKm (filter (\<lambda>d. \<not> isGhost (driverId d)) res))"
    unfolding res filter_response [of "\<lambda>i. \<not> isGhost i"]
    using selectResults_blocks_sorted(1) [OF s] by (simp add: o_def)
  have 4: "sorted (map distanceKm (filter (\<lambda>d. isGhost (driverId d)) res))"
    unfolding res filter_response [of isGhost]
    using selectResults_blocks_sorted(2) [OF s] by (simp add: o_def)
  from 1 2 3 4 show ?thesis by blast
qed

text \<open>C1, witness: a search over one real and one ghost driver in the default mode.\<close>

theorem search_distances_sorted_in_blocks_witness:
  "searchNearbyDrivers env0
     (store [(''real:1'', (0, 0)), (''ghost:1'', (0.01, 0))] []) 0 0 5 2
   = (Inr [\<lparr>driverId = ''real:1'', distanceKm = 0\<rparr>, \<lparr>driverId = ''ghost:1'', distanceKm = 1.11\<rparr>],
      (store [(''real:1'', (0, 0)), (''ghost:1'', (0.01, 0))] [])
        \<lparr>trace := [GeoSearch ''drivers'' 0 0 5 (Some 1000)]\<rparr>)
   \<and> preferRealDrivers env0
   \<and> sorted (map distanceKm (filter (\<lambda>d. \<not> isGhost (driverId d))
         [\<lparr>driverId = ''real:1'', distanceKm = 0\<rparr>, \<lparr>driverId = ''ghost:1'', distanceKm = 1.11\<rparr>]))"
proof -
  have h: "searchNearbyDrivers env0
     (store [(''real:1'', (0, 0)), (''ghost:1'', (0.01, 0))] []) 0 0 5 2
   = (Inr [\<lparr>driverId = ''real:1'', distanceKm = 0\<rparr>, \<lparr>driverId = ''ghost:1'', distanceKm = 1.11\<rparr>],
      (store [(''real:1'', (0, 0)), (''ghost:1'', (0.01, 0))] [])
        \<lparr>trace := [GeoSearch ''drivers'' 0 0 5 (Some 1000)]\<rparr>)"
    using maxSearchCount_env0 by (simp add: search_defs store_defs env0_def)
  have p: "preferRealDrivers env0"
    by (simp add: preferRealDrivers_def env0_def)
  show ?thesis
    using h p search_distances_sorted_in_blocks [OF h] by simp
qed

text \<open>
  C1, counterexample to the claim as stated: a ghost at the query center and a real
  driver 1.11 km away, default environment, count 2. The real driver is placed first,
  so the distances decrease.
\<close>

theorem search_distances_not_sorted:
  "fst (searchNearbyDrivers env0
          (store [(''ghost:1'', (0, 0)), (''real:1'', (0.01, 0))] []) 0 0 5 2)
   = Inr [\<lparr>driverId = ''real:1'', distanceKm = 1.11\<rparr>, \<lparr>driverId = ''ghost:1'', distanceKm = 0\<rparr>]
   \<and> \<not> sorted (map distanceKm
         [\<lparr>driverId = ''real:1'', distanceKm = 1.11\<rparr>, \<lparr>driverId = ''ghost:1'', distanceKm = 0\<rparr>])"
  using maxSearchCount_env0 by (simp add: search_defs store_defs env0_def)

subsection \<open>C2: real drivers before ghosts\<close>

text \<open>
  Claim C2, as amended. With real drivers preferred (the default) and the flat scan
  selected, if the reply of the store to the capped query (the members within the
  radius nearest to the center, at most \<^verbatim>\<open>MAX_DRIVER_SEARCH_COUNT\<close> of them) holds at
  least \<open>count\<close> real drivers, then the search succeeds and its result holds no ghost.
\<close>

theorem search_no_ghost_when_enough_real_fetched:
  assumes "\<not> useH3 e" and "preferRealDrivers e"
    and "geosearchLarge w ''drivers'' lon lat r (maxSearchCount e) = (Inr allResults, w1)"
    and "c \<le> int (length (filter (\<lambda>r. \<not> isGhost (member r)) allResults))"
  shows "\<exists>res. searchNearbyDrivers e w lon lat r c = (Inr res, w1)
           \<and> filter (\<lambda>d. isGhost (driverId d)) res = []"
proof -
  let ?res = "map (\<lambda>r. \<lparr>driverId = member r, distanceKm = distance r\<rparr>)
                (selectResults True c allResults)"
  have "searchNearbyDrivers e w lon lat r c = (Inr ?res, w1)"
    using assms(1-3) by (simp add: searchNearbyDrivers_def)
  moreover have "filter (\<lambda>r. isGhost (member r)) (selectResults True c allResults) = []"
    unfolding selectResults_ghost_block remaining_zero [OF assms(4)] by (simp add: slice0_def)
  then have "filter (\<lambda>d. isGhost (driverId d)) ?res = []"
    unfolding filter_response [of isGhost] by simp
  ultimately show ?thesis by blast
qed

text \<open>
  C2, counterexample to the claim as stated, under the default environment: a thousand
  ghosts at the query center and one real driver 1.11 km away, radius 5 km, count 1.
  One real driver lies within the radius, but the reply capped at 1000 entries holds
  only ghosts, and a ghost is returned. (Which ghost comes first depends on the store's
  order among members at equal distance.)
\<close>

theorem search_ghost_despite_real_in_radius:
  "preferRealDrivers env0
   \<and> \<not> isGhost ''real:1'' \<and> degreesKm (0, 0) (0.01, 0) \<le> 5
   \<and> fst (searchNearbyDrivers env0 (store (crowd 1000 @ [(''real:1'', (0.01, 0))]) []) 0 0 5 1)
       = Inr [\<lparr>driverId = ''ghost:g'', distanceKm = 0\<rparr>]
   \<and> isGhost ''ghost:g''"
proof -
  have a: "preferRealDrivers env0 \<and> \<not> useH3 env0"
    by (simp add: preferRealDrivers_def useH3_def env0_def)
  have b: "\<not> isGhost ''real:1'' \<and> isGhost ''ghost:g'' \<and> degreesKm (0, 0) (0.01, 0) \<le> 5"
    by (simp add: isGhost_def degreesKm_def)
  have c: "geosearchLarge (store (crowd 1000 @ [(''real:1'', (0.01, 0))]) []) ''drivers'' 0 0 5
             (maxSearchCount env0)
     = (Inr (map (\<lambda>i. \<lparr>member = ghostId i, distance = 0\<rparr>) [0..<1000]),
        (store (crowd 1000 @ [(''real:1'', (0.01, 0))]) [])
          \<lparr>trace := [GeoSearch ''drivers'' 0 0 5 (Some 1000)]\<rparr>)"
    using crowd_reply [of 1000] by (simp add: geosearchLarge_def maxSearchCount_env0)
  have d: "selectResults True 1 (map (\<lambda>i. \<lparr>member = ghostId i, distance = 0\<rparr>) [0..<1000])
           = [\<lparr>member = ghostId 0, distance = 0\<rparr>]"
    by (rule crowd_select) simp
  have e: "ghostId 0 = ''ghost:g''" by (simp add: ghostId_def)
  have s: "searchNearbyDrivers env0 (store (crowd 1000 @ [(''real:1'', (0.01, 0))]) []) 0 0 5 1
     = (Inr (map (\<lambda>r. \<lparr>driverId = member r, distanceKm = distance r\<rparr>)
               (selectResults True 1 (map (\<lambda>i. \<lparr>member = ghostId i, distance = 0\<rparr>) [0..<1000]))),
        (store (crowd 1000 @ [(''real:1'', (0.01, 0))]) [])
          \<lparr>trace := [GeoSearch ''drivers'' 0 0 5 (Some 1000)]\<rparr>)"
    unfolding searchNearbyDrivers_def c using a by simp
  show ?thesis
    unfolding s d e using a b by simp
qed

text \<open>
  C2, witness: a ghost at the query center and a real driver 1.11 km away, default cap
  of 1000, count 1; the real driver is fetched and returned alone.
\<close>

theorem search_no_ghost_when_enough_real_fetched_witness:
  "\<not> useH3 env0 \<and> preferRealDrivers env0
   \<and> searchNearbyDrivers env0
        (store [(''ghost:1'', (0, 0)), (''real:1'', (0.01, 0))] []) 0 0 5 1
      = (Inr [\<lparr>driverId = ''real:1'', distanceKm = 1.11\<rparr>],
         (store [(''ghost:1'', (0, 0)), (''real:1'', (0.01, 0))] [])
           \<lparr>trace := [GeoSearch ''drivers'' 0 0 5 (Some 1000)]\<rparr>)
   \<and> filter (\<lambda>d. isGhost (driverId d)) [\<lparr>driverId = ''real:1'', distanceKm = 1.11\<rparr>] = []"
proof -
  let ?w = "store [(''ghost:1'', (0, 0)), (''real:1'', (0.01, 0))] []"
  let ?all = "[\<lparr>member = ''ghost:1'', distance = 0\<rparr>, \<lparr>member = ''real:1'', distance = 1.11\<rparr>]"
  have a: "\<not> useH3 env0" and b: "preferRealDrivers env0"
    by (simp_all add: useH3_def preferRealDrivers_def env0_def)
  have g: "geosearchLarge ?w ''drivers'' 0 0 5 (maxSearchCount env0)
             = (Inr ?all, ?w\<lparr>trace := [GeoSearch ''drivers'' 0 0 5 (Some 1000)]\<rparr>)"
    by (simp add: maxSearchCount_env0 geosearchLarge_def geoSearchWith_def Let_def store_defs)
  have c: "(1::int) \<le> int (length (filter (\<lambda>r. \<not> isGhost (member r)) ?all))"
    by (simp add: isGhost_def)
  have s: "searchNearbyDrivers env0 ?w 0 0 5 1
      = (Inr [\<lparr>driverId = ''real:1'', distanceKm = 1.11\<rparr>],
         ?w\<lparr>trace := [GeoSearch ''drivers'' 0 0 5 (Some 1000)]\<rparr>)"
    using maxSearchCount_env0 by (simp add: search_defs store_defs env0_def)
  show ?thesis
    using a b s search_no_ghost_when_enough_real_fetched [OF a b g c] by (simp add: isGhost_def)
qed

subsection \<open>C3: deregistration and the geospatial index\<close>

text \<open>
  Claim C3 says that after \<^verbatim>\<open>deleteDriver\<close> a radius search never returns the id. The
  code sends \<^verbatim>\<open>geoadd('drivers', 0, 0, userId)\<close> where its own comment announces a
  removal, so the member stays in the index, moved to (0, 0). The theorem runs the code:
  driver \<^verbatim>\<open>d1\<close> is deleted with success, and a search of 1 km around (0, 0) returns it.
\<close>

theorem deleteDriver_leaves_member_at_origin:
  "fst (deleteDriver (store [(''d1'', (106.7, 10.77))] [(''d1'', profileOf ''d1'')]) ''d1'')
     = Inr \<lparr>success = True, message = ''Driver deleted successfully''\<rparr>
   \<and> geo (snd (deleteDriver (store [(''d1'', (106.7, 10.77))] [(''d1'', profileOf ''d1'')]) ''d1''))
         ''drivers'' = [(''d1'', (0, 0))]
   \<and> fst (searchNearbyDrivers env0
            (snd (deleteDriver (store [(''d1'', (106.7, 10.77))] [(''d1'', profileOf ''d1'')]) ''d1''))
            0 0 1 10)
       = Inr [\<lparr>driverId = ''d1'', distanceKm = 0\<rparr>]"
  using maxSearchCount_env0 by (simp add: delete_defs search_defs store_defs env0_def)

subsection \<open>C4: reports with coordinates out of range\<close>

text \<open>
  Claim C4, as amended. \<^verbatim>\<open>updateLocation\<close> checks no coordinate itself: for every id and
  every coordinate pair, in range or not, the first thing it does is send
  \<^verbatim>\<open>GEOADD drivers lon lat id\<close> to the store. If the store refuses the command, the
  report fails with the store's error, and the point set and the profiles are
  unchanged. If the store accepts it, the id is stored at (lon, lat).
\<close>

theorem updateLocation_forwards_to_store:
  "(\<exists>rest. trace (snd (updateLocation w d lon lat)) = trace w @ GeoAdd ''drivers'' lon lat d # rest)
   \<and> (rejects w (GeoAdd ''drivers'' lon lat d) = Some msg \<longrightarrow>
        updateLocation w d lon lat
          = (Inl (Error msg), w\<lparr>trace := trace w @ [GeoAdd ''drivers'' lon lat d]\<rparr>))
   \<and> (rejects w (GeoAdd ''drivers'' lon lat d) = None \<longrightarrow>
        map_of (geo (snd (updateLocation w d lon lat)) ''drivers'') d = Some (lon, lat))"
  by (auto simp: location_defs update_conv' split: option.splits)

text \<open>
  C4, witness: the report (200, 10), which the store refuses, and a report in range,
  which it accepts.
\<close>

theorem updateLocation_forwards_to_store_witness:
  "rejects (store [] []) (GeoAdd ''drivers'' 200 10 ''d1'') = Some ''ERR invalid longitude,latitude pair''
   \<and> updateLocation (store [] []) ''d1'' 200 10
       = (Inl (Error ''ERR invalid longitude,latitude pair''),
          (store [] [])\<lparr>trace := trace (store [] []) @ [GeoAdd ''drivers'' 200 10 ''d1'']\<rparr>)
   \<and> rejects (store [] []) (GeoAdd ''drivers'' 106.7 10.77 ''ghost:7'') = None
   \<and> map_of (geo (snd (updateLocation (store [] []) ''ghost:7'' 106.7 10.77)) ''drivers'') ''ghost:7''
       = Some (106.7, 10.77)"
proof -
  have a: "rejects (store [] []) (GeoAdd ''drivers'' 200 10 ''d1'')
             = Some ''ERR invalid longitude,latitude pair''"
    by (simp add: store_defs)
  have b: "rejects (store [] []) (GeoAdd ''drivers'' 106.7 10.77 ''ghost:7'') = None"
    by (simp add: store_defs)
  show ?thesis
    using a b
      updateLocation_forwards_to_store [where w = "store [] []" and d = "''d1''" and lon = 200 and lat = 10
        and msg = "''ERR invalid longitude,latitude pair''"]
      updateLocation_forwards_to_store [where w = "store [] []" and d = "''ghost:7''" and lon = "106.7" and lat = "10.77"
        and msg = "[]"]
    by simp
qed

text \<open>
  C4, counterexample to the claim as stated: for the report (200, 10) the write command
  reaches the store, and the error of the report is the one the store answers with.
  Against a store that accepts every command, the same report of a ghost driver succeeds
  and the point (200, 10) is stored.
\<close>

theorem updateLocation_out_of_range_reaches_store:
  "updateLocation (store [] []) ''d1'' 200 10
     = (Inl (Error ''ERR invalid longitude,latitude pair''),
        (store [] [])\<lparr>trace := [GeoAdd ''drivers'' 200 10 ''d1'']\<rparr>)
   \<and> fst (updateLocation ((store [] [])\<lparr>rejects := acceptsAll\<rparr>) ''ghost:1'' 200 10)
     = Inr \<lparr>userId = ''ghost:1'', name = ''Ghost Driver'', email = ''ghost:1@ghost.test'',
            phone = ''+1000000000'', vehicleType = MOTOBIKE, licensePlate = ''GHOST-001'',
            licenseNumber = ''DL-GHOST'', status = ONLINE, rating = 4.8, balance = 0,
            lastLat = Some 10, lastLng = Some 200\<rparr>
   \<and> geo (snd (updateLocation ((store [] [])\<lparr>rejects := acceptsAll\<rparr>) ''ghost:1'' 200 10)) ''drivers''
     = [(''ghost:1'', (200, 10))]"
  by (simp add: location_defs store_defs acceptsAll_def isGhost_def)

subsection \<open>C5: capacity\<close>

text \<open>
  Claim C5 says that the result is never longer than the requested count and is empty
  for a count of zero or less. For a negative count \<^verbatim>\<open>slice(0, count)\<close> drops entries
  from the end instead of returning none. The theorem runs the code with two real
  drivers in the radius and count -1: one driver is returned.
\<close>

theorem search_negative_count_nonempty:
  "fst (searchNearbyDrivers env0
          (store [(''real:1'', (0, 0)), (''real:2'', (0.01, 0))] []) 0 0 5 (- 1))
     = Inr [\<lparr>driverId = ''real:1'', distanceKm = 0\<rparr>]"
  using maxSearchCount_env0 by (simp add: search_defs store_defs env0_def)

subsection \<open>C6: the hierarchical strategy\<close>

text \<open>
  Claim C6. With \<^verbatim>\<open>USE_H3=true\<close> (no cell index exists in the code),
  \<^verbatim>\<open>searchNearbyDrivers\<close> fails at once with the error "H3 implementation not yet
  available"; the world is returned as it was, so no command was sent to the store and
  no flat scan was run in its place.
\<close>

theorem search_h3_fails_without_store_access:
  "USE_H3 e = Some ''true'' \<Longrightarrow>
     searchNearbyDrivers e w lon lat r c
       = (Inl (Error ''H3 implementation not yet available. Set USE_H3=false to use pre-tuning mode.''), w)"
  by (simp add: searchNearbyDrivers_def useH3_def h3NotAvailable_def)

text \<open>C6, witness: a search with \<^verbatim>\<open>USE_H3=true\<close> over a store holding one driver.\<close>

theorem search_h3_fails_without_store_access_witness:
  "USE_H3 envH3 = Some ''true'' \<and>
   searchNearbyDrivers envH3 (store [(''real:1'', (0, 0))] []) 0 0 5 10
     = (Inl (Error ''H3 implementation not yet available. Set USE_H3=false to use pre-tuning mode.''),
        store [(''real:1'', (0, 0))] [])"
proof -
  have h: "USE_H3 envH3 = Some ''true''" by (simp add: envH3_def)
  show ?thesis using h search_h3_fails_without_store_access [OF h] by simp
qed

subsection \<open>C7: the two strategies compared\<close>

text \<open>
  Claim C7, as amended. For every stored point set and query, only the flat scan
  returns ids: when the store accepts the search command, the flat scan succeeds and
  every id it returns is a stored member within the radius, with its distance; the
  hierarchical strategy (\<^verbatim>\<open>USE_H3=true\<close>) never returns a result.
\<close>

theorem search_only_flat_scan_succeeds:
  assumes "useH3 eh" and "\<not> useH3 ef"
    and "\<And>cnt. rejects w (GeoSearch ''drivers'' lon lat r cnt) = None"
  shows "(\<exists>res w1. searchNearbyDrivers ef w lon lat r c = (Inr res, w1) \<and>
            (\<forall>d \<in> set res. \<exists>p. (driverId d, p) \<in> set (geo w ''drivers'') \<and>
                 distanceKm d = distKm w (lon, lat) p \<and> distanceKm d \<le> r))
         \<and> (\<forall>res w1. searchNearbyDrivers eh w lon lat r c \<noteq> (Inr res, w1))"
proof -
  obtain allResults w1 where
    g: "geosearchLarge w ''drivers'' lon lat r (maxSearchCount ef) = (Inr allResults, w1)"
    using assms(3) by (simp add: geosearchLarge_def geoSearchWith_def Let_def)
  let ?res = "map (\<lambda>r. \<lparr>driverId = member r, distanceKm = distance r\<rparr>)
                (selectResults (preferRealDrivers ef) c allResults)"
  have s: "searchNearbyDrivers ef w lon lat r c = (Inr ?res, w1)"
    using assms(2) g by (simp add: searchNearbyDrivers_def)
  have "\<exists>p. (driverId d, p) \<in> set (geo w ''drivers'') \<and>
             distanceKm d = distKm w (lon, lat) p \<and> distanceKm d \<le> r" if "d \<in> set ?res" for d
  proof -
    from that obtain h where h: "h \<in> set (selectResults (preferRealDrivers ef) c allResults)"
      and d: "d = \<lparr>driverId = member h, distanceKm = distance h\<rparr>" by auto
    from h selectResults_subset have "h \<in> set allResults" by blast
    with g have "\<exists>p. (member h, p) \<in> set (geo w ''drivers'') \<and>
        distance h = distKm w (lon, lat) p \<and> distance h \<le> r"
      unfolding geosearchLarge_def Let_def by (rule geoSearchWith_within)
    then show ?thesis by (simp add: d)
  qed
  with s have 1: "\<exists>res w1. searchNearbyDrivers ef w lon lat r c = (Inr res, w1) \<and>
            (\<forall>d \<in> set res. \<exists>p. (driverId d, p) \<in> set (geo w ''drivers'') \<and>
                 distanceKm d = distKm w (lon, lat) p \<and> distanceKm d \<le> r)"
    by blast
  have 2: "\<forall>res w1. searchNearbyDrivers eh w lon lat r c \<noteq> (Inr res, w1)"
    using assms(1) by (simp add: searchNearbyDrivers_def)
  from 1 2 show ?thesis by blast
qed

text \<open>C7, witness: both strategies over a store holding one driver.\<close>

theorem search_only_flat_scan_succeeds_witness:
  "useH3 envH3 \<and> \<not> useH3 env0
   \<and> rejects (store [(''real:1'', (0, 0))] []) (GeoSearch ''drivers'' 0 0 5 (Some 1000)) = None
   \<and> searchNearbyDrivers env0 (store [(''real:1'', (0, 0))] []) 0 0 5 10
       = (Inr [\<lparr>driverId = ''real:1'', distanceKm = 0\<rparr>],
          (store [(''real:1'', (0, 0))] [])\<lparr>trace := [GeoSearch ''drivers'' 0 0 5 (Some 1000)]\<rparr>)
   \<and> searchNearbyDrivers envH3 (store [(''real:1'', (0, 0))] []) 0 0 5 10
       = (Inl h3NotAvailable, store [(''real:1'', (0, 0))] [])"
proof -
  let ?w = "store [(''real:1'', (0, 0))] []"
  have a: "useH3 envH3" and b: "\<not> useH3 env0"
    by (simp_all add: useH3_def envH3_def env0_def)
  have c: "rejects ?w (GeoSearch ''drivers'' 0 0 5 cnt) = None" for cnt
    by (simp add: store_defs)
  have d: "searchNearbyDrivers env0 ?w 0 0 5 10
       = (Inr [\<lparr>driverId = ''real:1'', distanceKm = 0\<rparr>],
          ?w\<lparr>trace := [GeoSearch ''drivers'' 0 0 5 (Some 1000)]\<rparr>)"
    using maxSearchCount_env0 by (simp add: search_defs store_defs env0_def)
  have e: "searchNearbyDrivers envH3 ?w 0 0 5 10 = (Inl h3NotAvailable, ?w)"
    using a by (simp add: searchNearbyDrivers_def)
  from search_only_flat_scan_succeeds [OF a b c, of 10] a b c d e show ?thesis by blast
qed

text \<open>
  C7, counterexample to the claim as stated: on the same store and query the
  hierarchical strategy fails while the flat scan returns a driver.
\<close>

theorem search_h3_fails_where_flat_scan_succeeds:
  "fst (searchNearbyDrivers envH3 (store [(''real:1'', (0, 0))] []) 0 0 5 10) = Inl h3NotAvailable
   \<and> fst (searchNearbyDrivers env0 (store [(''real:1'', (0, 0))] []) 0 0 5 10)
       = Inr [\<lparr>driverId = ''real:1'', distanceKm = 0\<rparr>]"
  using maxSearchCount_env0 by (simp add: search_defs store_defs env0_def envH3_def)

subsection \<open>C8: reporting the same location twice\<close>

text \<open>
  Claim C8. For every id and coordinate pair, \<^verbatim>\<open>updateLocation\<close> called twice in
  succession with the same arguments leaves the geospatial sets and the profile table
  exactly as one call leaves them. (The code keeps no cell membership index. Whether a
  collaborator refuses a command is fixed in the world, so it is the same at both
  calls.)
\<close>

theorem updateLocation_twice:
  "geo (snd (updateLocation (snd (updateLocation w d lon lat)) d lon lat))
     = geo (snd (updateLocation w d lon lat))
   \<and> profiles (snd (updateLocation (snd (updateLocation w d lon lat)) d lon lat))
     = profiles (snd (updateLocation w d lon lat))"
  by (auto simp: location_defs update_twice split: option.splits)

subsection \<open>C9: \<^verbatim>\<open>deleteDriver\<close> never raises\<close>

text \<open>
  Claim C9. For every user id \<^verbatim>\<open>deleteDriver\<close> returns a \<^verbatim>\<open>{ success, message }\<close> value.
  When the database deletion fails, \<^verbatim>\<open>success\<close> is false and \<^verbatim>\<open>message\<close> is the error's
  message (the text "Failed to delete driver" when that message is empty). When the
  deletion succeeds, \<^verbatim>\<open>success\<close> is true, also when the Redis call that follows fails.
\<close>

theorem deleteDriver_total:
  "(\<exists>res. fst (deleteDriver w u) = Inr res)
   \<and> (fst (dbDelete w u) = Inl e \<longrightarrow>
        fst (deleteDriver w u)
          = Inr \<lparr>success = False,
                 message = (if message_of e = [] then ''Failed to delete driver'' else message_of e)\<rparr>)
   \<and> (fst (dbDelete w u) = Inr p \<longrightarrow>
        fst (deleteDriver w u) = Inr \<lparr>success = True, message = ''Driver deleted successfully''\<rparr>)
   \<and> (fst (dbDelete w u) = Inr p \<longrightarrow>
        fst (geoadd (snd (dbDelete w u)) ''drivers'' 0 0 u) = Inl e' \<longrightarrow>
        fst (deleteDriver w u) = Inr \<lparr>success = True, message = ''Driver deleted successfully''\<rparr>)"
  by (auto simp: deleteDriver_def deleteDriver_try_def split: prod.splits sum.splits)

text \<open>
  C9, witness: a deletion with the database unreachable, and a deletion whose Redis call
  fails.
\<close>

theorem deleteDriver_total_witness:
  "fst (dbDelete ((store [] [(''d1'', profileOf ''d1'')])\<lparr>rejects := dbDown\<rparr>) ''d1'')
     = Inl (Error ''Can't reach database server'')
   \<and> fst (deleteDriver ((store [] [(''d1'', profileOf ''d1'')])\<lparr>rejects := dbDown\<rparr>) ''d1'')
     = Inr \<lparr>success = False, message = ''Can't reach database server''\<rparr>
   \<and> fst (dbDelete ((store [] [(''d1'', profileOf ''d1'')])\<lparr>rejects := redisDown\<rparr>) ''d1'')
     = Inr (profileOf ''d1'')
   \<and> fst (geoadd (snd (dbDelete ((store [] [(''d1'', profileOf ''d1'')])\<lparr>rejects := redisDown\<rparr>) ''d1''))
            ''drivers'' 0 0 ''d1'')
     = Inl (Error ''Socket closed unexpectedly'')
   \<and> fst (deleteDriver ((store [] [(''d1'', profileOf ''d1'')])\<lparr>rejects := redisDown\<rparr>) ''d1'')
     = Inr \<lparr>success = True, message = ''Driver deleted successfully''\<rparr>"
proof -
  let ?a = "(store [] [(''d1'', profileOf ''d1'')])\<lparr>rejects := dbDown\<rparr>"
  let ?b = "(store [] [(''d1'', profileOf ''d1'')])\<lparr>rejects := redisDown\<rparr>"
  have 1: "fst (dbDelete ?a ''d1'') = Inl (Error ''Can't reach database server'')"
    by (simp add: dbDelete_def Let_def store_def dbDown_def)
  have 2: "fst (dbDelete ?b ''d1'') = Inr (profileOf ''d1'')"
    by (simp add: dbDelete_def Let_def store_def redisDown_def)
  have 3: "fst (geoadd (snd (dbDelete ?b ''d1'')) ''drivers'' 0 0 ''d1'')
             = Inl (Error ''Socket closed unexpectedly'')"
    by (simp add: dbDelete_def geoadd_def geoAdd_def Let_def store_def redisDown_def)
  show ?thesis
    using 1 2 3
      deleteDriver_total [of ?a "''d1''" "Error ''Can't reach database server''"]
      deleteDriver_total [of ?b "''d1''" _ "profileOf ''d1''" "Error ''Socket closed unexpectedly''"]
    by simp
qed

subsection \<open>C10: the profile of a ghost driver\<close>

text \<open>
  Claim C10. For every id that starts with \<^verbatim>\<open>ghost:\<close>, \<^verbatim>\<open>findOne\<close> returns the fixed
  synthetic profile (status ONLINE, rating 4.8, no last position) and leaves the world
  untouched, so it sends nothing to the database; this holds in every world, hence also
  for an id that never reported a location, and \<^verbatim>\<open>updateStatus\<close> for that id changes
  neither the world nor what \<^verbatim>\<open>findOne\<close> returns.
\<close>

theorem findOne_ghost_profile:
  "isGhost ident \<Longrightarrow>
     findOne w ident
       = (Inr \<lparr>userId = ident, name = ''Ghost Driver'', email = ident @ ''@ghost.test'',
               phone = ''+1000000000'', vehicleType = MOTOBIKE, licensePlate = ''GHOST-001'',
               licenseNumber = ''DL-GHOST'', status = ONLINE, rating = 4.8, balance = 0,
               lastLat = None, lastLng = None\<rparr>, w)
     \<and> snd (updateStatus w ident s) = w
     \<and> findOne (snd (updateStatus w ident s)) ident = findOne w ident"
  by (simp add: findOne_def updateStatus_def)

text \<open>C10, witness: the ghost \<^verbatim>\<open>ghost:42\<close> in a world with an empty index.\<close>

theorem findOne_ghost_profile_witness:
  "isGhost ''ghost:42''
   \<and> findOne (store [] []) ''ghost:42''
       = (Inr \<lparr>userId = ''ghost:42'', name = ''Ghost Driver'', email = ''ghost:42@ghost.test'',
               phone = ''+1000000000'', vehicleType = MOTOBIKE, licensePlate = ''GHOST-001'',
               licenseNumber = ''DL-GHOST'', status = ONLINE, rating = 4.8, balance = 0,
               lastLat = None, lastLng = None\<rparr>, store [] [])
   \<and> findOne (snd (updateStatus (store [] []) ''ghost:42'' OFFLINE)) ''ghost:42''
       = findOne (store [] []) ''ghost:42''"
proof -
  have g: "isGhost ''ghost:42''" by (simp add: isGhost_def)
  show ?thesis using g findOne_ghost_profile [OF g, of "store [] []" OFFLINE] by simp
qed

end
